theory Spec2Isabelle
  imports Complex_Main "HOL-Library.Sublist" "HOL-Library.Multiset"
begin

section \<open>The SLA timer card of the admin complaint detail page\<close>

text \<open>
  \<^verbatim>\<open>frontend/pages/admin/complaints/[id].js\<close> renders the complaint returned by the
  admin API. (The file holds the component twice; the first definition, the one with the
  timer card, is the one modelled. The second is an older copy without the card.) The serializer adds an \<^verbatim>\<open>sla_timer\<close> object to a complaint (or leaves the
  field null/absent); the page reads its fields and computes nothing itself. The fields
  the card reads are the fields of the record below. A field the JSON leaves out reads as
  \<^verbatim>\<open>undefined\<close>, which is falsy: the Boolean \<^verbatim>\<open>is_overdue\<close> is then \<open>False\<close>.
\<close>

record sla_timer =
  timer_status :: string
  icon :: string
  title :: string
  timer_priority :: int
  priority_text :: string
  hours_elapsed :: rat
  is_overdue :: bool
  hours_overdue :: rat
  hours_remaining :: rat
  escalation_deadline :: rat
  resolution_deadline :: rat
  timer_escalation_count :: int

text \<open>The complaint as the page holds it: only the field the timer card depends on.\<close>

record api_complaint =
  complaint_status :: string
  sla_timer :: "sla_timer option"

text \<open>The rendered card: the style chosen for the box, the header, the statistics grid
  (absent when the block is not rendered) and the escalation notice.\<close>

datatype timer_style =
  timerCompleted | timerDeclined | timerPending | timerOverdue | timerCritical
  | timerWarning | timerOk

record timer_stat =
  timerStatLabel :: string
  timerStatValue :: rat

record timer_card =
  timerCard :: timer_style
  timerIcon :: string
  timerTitle :: string
  priorityBadge :: string
  priorityBadgeText :: string
  timerStats :: "timer_stat list option"
  escalationWarning :: "int option"

text \<open>The chain of conditional expressions that picks the style of the card.\<close>

definition timer_card_style :: "string \<Rightarrow> timer_style" where
  "timer_card_style s =
     (if s = ''completed'' then timerCompleted
      else if s = ''declined'' then timerDeclined
      else if s = ''pending'' then timerPending
      else if s = ''overdue'' then timerOverdue
      else if s = ''critical'' then timerCritical
      else if s = ''warning'' then timerWarning
      else timerOk)"

definition priority_badge_color :: "int \<Rightarrow> string" where
  "priority_badge_color p =
     (if p = 3 then ''#dc2626'' else if p = 2 then ''#ea580c'' else ''#3b82f6'')"

text \<open>The statistics grid, rendered unless the status is \<^verbatim>\<open>declined\<close>: the elapsed time,
  then (unless the status is \<^verbatim>\<open>completed\<close>) the time remaining or the overdue time, then
  the two deadlines.\<close>

definition render_timer_stats :: "sla_timer \<Rightarrow> timer_stat list option" where
  "render_timer_stats t =
     (if timer_status t \<noteq> ''declined'' then
        Some
          ([\<lparr>timerStatLabel =
               (if timer_status t = ''completed'' then ''Total Time'' else ''Time Elapsed''),
             timerStatValue = hours_elapsed t\<rparr>]
           @ (if timer_status t \<noteq> ''completed'' then
                [\<lparr>timerStatLabel = (if is_overdue t then ''Overdue By'' else ''Time Remaining''),
                  timerStatValue = (if is_overdue t then hours_overdue t else hours_remaining t)\<rparr>]
              else [])
           @ [\<lparr>timerStatLabel = ''SLA Deadline'', timerStatValue = escalation_deadline t\<rparr>,
              \<lparr>timerStatLabel = ''Resolution Target'', timerStatValue = resolution_deadline t\<rparr>])
      else None)"

definition render_timer_card :: "sla_timer \<Rightarrow> timer_card" where
  "render_timer_card t =
     \<lparr>timerCard = timer_card_style (timer_status t),
      timerIcon = icon t,
      timerTitle = title t,
      priorityBadge = priority_badge_color (timer_priority t),
      priorityBadgeText = priority_text t,
      timerStats = render_timer_stats t,
      escalationWarning =
        (if timer_escalation_count t > 0 then Some (timer_escalation_count t) else None)\<rparr>"

text \<open>\<^verbatim>\<open>{complaint.sla_timer && ( ... )}\<close>: the card is rendered when the field holds an
  object, and nothing is rendered in its place when the field is null or absent. No other
  expression of the page reads \<^verbatim>\<open>sla_timer\<close>.\<close>

definition render_sla_timer :: "api_complaint \<Rightarrow> timer_card option" where
  "render_sla_timer complaint =
     (case sla_timer complaint of None \<Rightarrow> None | Some t \<Rightarrow> Some (render_timer_card t))"

text \<open>The component: a spinner while the request is pending, the "not found" box when no
  complaint was loaded, the detail page otherwise.\<close>

datatype page = Loading | ComplaintNotFound | Detail "timer_card option"

definition ComplaintDetail :: "bool \<Rightarrow> api_complaint option \<Rightarrow> page" where
  "ComplaintDetail loading complaint =
     (if loading then Loading
      else case complaint of None \<Rightarrow> ComplaintNotFound
           | Some c \<Rightarrow> Detail (render_sla_timer c))"

definition stat_labels :: "timer_card \<Rightarrow> string list" where
  "stat_labels tc = (case timerStats tc of None \<Rightarrow> [] | Some sts \<Rightarrow> map timerStatLabel sts)"

text \<open>A timer as the API returns it for a completed complaint.\<close>

definition completed_timer :: sla_timer where
  "completed_timer =
     \<lparr>timer_status = ''completed'', icon = ''ok'', title = ''Completed'', timer_priority = 2,
      priority_text = ''High'', hours_elapsed = 5, is_overdue = False, hours_overdue = 0,
      hours_remaining = 0, escalation_deadline = 12, resolution_deadline = 24,
      timer_escalation_count = 0\<rparr>"

section \<open>The SLA escalation engine: data model\<close>

text \<open>
  The engine is the management command \<^verbatim>\<open>auto_escalate\<close>. Its Python file is not among
  the sources; the implementation summary and the escalation guide quote its timer check,
  the text it puts into an escalation's reason and \<^verbatim>\<open>_find_senior_officer\<close>. Those are
  embedded from the quoted code. The parts the documents only describe in prose (the
  Evaluator's warning band, the Recorder, the Dispatcher and the Driver) are modelled from
  the specification and marked so.

  Timestamps are counted in microseconds, the resolution of Python's \<^verbatim>\<open>datetime\<close>;
  \<^verbatim>\<open>timedelta(hours=h)\<close> is \<open>h\<close> times 3600000000 of them, and
  \<^verbatim>\<open>total_seconds() / 3600\<close> is modelled exactly, as a rational number of hours.
\<close>

definition timedelta_hours :: "nat \<Rightarrow> int" where
  "timedelta_hours h = int h * 3600000000"

definition total_hours :: "int \<Rightarrow> rat" where
  "total_hours d = of_int d / 3600000000"

datatype status =
  SUBMITTED | ASSIGNED | IN_PROGRESS | PENDING_REASSIGNMENT
  | RESOLVED | COMPLETED | REJECTED | DECLINED

datatype priority = NORMAL | HIGH | CRITICAL

datatype error = NotConfigured | NoEligibleTarget | AttributeError

record worker =
  worker_id :: nat
  worker_full_name :: string

record officer =
  officer_id :: nat
  officer_full_name :: string
  officer_department :: nat

record complaint =
  complaint_id :: nat
  citizen :: nat
  category :: nat
  department :: nat
  status :: status
  priority :: priority
  created_at :: int
  updated_at :: int
  completed_at :: "int option"
  current_worker :: "worker option"
  current_officer :: "officer option"
  escalation_count :: nat
  last_warned_at :: "int option"
  last_escalated_at :: "int option"

record sla_config =
  resolution_hours :: nat
  escalation_hours :: nat

record escalation =
  escalated_complaint :: nat
  escalated_from :: "officer option"
  escalated_to :: officer
  reason :: string
  escalated_at :: int

definition is_terminal :: "status \<Rightarrow> bool" where
  "is_terminal st = (st = RESOLVED \<or> st = COMPLETED \<or> st = REJECTED \<or> st = DECLINED)"

text \<open>Modelled from the spec: the SLA Registry, \<^verbatim>\<open>lookup(categoryId)\<close>, which fails with
  \<^verbatim>\<open>NotConfigured\<close> for a category without a policy (the \<^verbatim>\<open>SLAConfig\<close> table is not
  among the sources).\<close>

definition lookup :: "(nat \<rightharpoonup> sla_config) \<Rightarrow> nat \<Rightarrow> error + sla_config" where
  "lookup registry categoryId =
     (case registry categoryId of None \<Rightarrow> Inl NotConfigured | Some p \<Rightarrow> Inr p)"

section \<open>The Evaluator\<close>

text \<open>
  The timer check quoted from \<^verbatim>\<open>auto_escalate.py\<close>:
  \<^verbatim>\<open>
  hours_since_creation = (current_time - complaint.created_at).total_seconds() / 3600
  escalation_deadline = complaint.created_at + timedelta(hours=sla_config.escalation_hours)
  if current_time >= escalation_deadline:
      # ESCALATE
  \<close>
  (the step-by-step walkthrough states the same test in hours:
  \<^verbatim>\<open>hours_elapsed >= sla_config.escalation_hours\<close>).
\<close>

definition hours_since_creation :: "int \<Rightarrow> complaint \<Rightarrow> rat" where
  "hours_since_creation current_time c = total_hours (current_time - created_at c)"

definition escalation_deadline_of :: "complaint \<Rightarrow> sla_config \<Rightarrow> int" where
  "escalation_deadline_of c p = created_at c + timedelta_hours (escalation_hours p)"

definition deadline_reached :: "int \<Rightarrow> complaint \<Rightarrow> sla_config \<Rightarrow> bool" where
  "deadline_reached current_time c p = (current_time \<ge> escalation_deadline_of c p)"

datatype sla_state = TERMINAL | ON_TRACK | WARNING | CRITICAL_STATE | OVERDUE

record evaluation =
  elapsedHours :: rat
  state :: sla_state

text \<open>Modelled from the spec: \<^verbatim>\<open>evaluate(complaint, now, policy, warningThreshold)\<close>. The
  command's own classification is not among the sources beyond the overdue test above,
  which is used as quoted. A terminal complaint yields \<open>TERMINAL\<close>, and its timer is
  frozen at the moment the terminal status was reached. The specification names no field
  for that moment; the complaint of the user page carries a nullable \<^verbatim>\<open>completed_at\<close>,
  and the model reads the moment from it. A terminal complaint without the stamp has no
  recorded moment to freeze at, and its elapsed time is reported up to \<open>now\<close>. Otherwise
  the state is \<open>OVERDUE\<close> once the deadline is reached, \<open>WARNING\<close> when the remaining
  time is at most the threshold, \<open>ON_TRACK\<close> else. The threshold is a number of hours, as
  the command-line option gives it.\<close>

definition evaluate :: "complaint \<Rightarrow> int \<Rightarrow> sla_config \<Rightarrow> int \<Rightarrow> evaluation" where
  "evaluate c now p warningThreshold =
     (if is_terminal (status c) then
        \<lparr>elapsedHours =
           (case completed_at c of
              Some t \<Rightarrow> total_hours (t - created_at c)
            | None \<Rightarrow> hours_since_creation now c),
         state = TERMINAL\<rparr>
      else
        \<lparr>elapsedHours = hours_since_creation now c,
         state =
           (if deadline_reached now c p then OVERDUE
            else if of_nat (escalation_hours p) - hours_since_creation now c
                      \<le> of_int warningThreshold
              then WARNING
            else ON_TRACK)\<rparr>)"

text \<open>Modelled from the spec: the split of the warning band "into CRITICAL below a tighter
  sub-threshold, purely for notification urgency, not for branching logic". It refines
  the state the Evaluator returned, for the text of a warning; the Driver does not branch
  on it.\<close>

definition notification_urgency :: "int \<Rightarrow> sla_config \<Rightarrow> evaluation \<Rightarrow> sla_state" where
  "notification_urgency subThreshold p e =
     (if state e = WARNING \<and> of_nat (escalation_hours p) - elapsedHours e < of_int subThreshold
      then CRITICAL_STATE else state e)"



section \<open>The responsible party\<close>

text \<open>
  The timer check of the implementation summary sets the reason in one line, which reads
  the worker without a test:
  \<^verbatim>\<open>
  reason = f"Auto-escalation: SLA breach. Previously assigned to worker: {complaint.current_worker.user.get_full_name()}"
  \<close>
  Without a worker, reading \<^verbatim>\<open>.user\<close> of \<^verbatim>\<open>None\<close> raises.
\<close>

definition timer_check_reason :: "complaint \<Rightarrow> error + string" where
  "timer_check_reason c =
     (case current_worker c of
        None \<Rightarrow> Inl AttributeError
      | Some w \<Rightarrow>
          Inr (''Auto-escalation: SLA breach. Previously assigned to worker: ''
               @ worker_full_name w))"

text \<open>
  Under the heading of the responsible party the same text is built with both parts
  guarded:
  \<^verbatim>\<open>
  if complaint.current_worker:
      reason += f"Previously assigned to worker: {complaint.current_worker.user.get_full_name()}. "
  if complaint.current_officer:
      reason += f"Supervised by: {complaint.current_officer.user.get_full_name()}."
  \<close>
  The value \<^verbatim>\<open>reason\<close> holds before these lines is not quoted; it is the first argument.
\<close>

definition escalation_reason :: "string \<Rightarrow> complaint \<Rightarrow> string" where
  "escalation_reason reason0 c =
     (let reason1 =
            (case current_worker c of
               Some w \<Rightarrow> reason0 @ ''Previously assigned to worker: '' @ worker_full_name w @ ''. ''
             | None \<Rightarrow> reason0)
      in case current_officer c of
           Some off \<Rightarrow> reason1 @ ''Supervised by: '' @ officer_full_name off @ ''.''
         | None \<Rightarrow> reason1)"

text \<open>
  The walkthrough of the implementation summary builds the record differently:
  \<^verbatim>\<open>
  responsible = complaint.current_worker or complaint.current_officer
  escalation = ComplaintEscalation(complaint=complaint,
      escalated_from=complaint.current_officer, escalated_to=senior_officer,
      reason=f"SLA breach. Previously assigned to {responsible.name}")
  \<close>
  With neither a worker nor an officer \<^verbatim>\<open>responsible\<close> is \<^verbatim>\<open>None\<close> and reading its
  name raises. The name read is taken to be the display name.
\<close>

datatype party = Worker worker | Officer officer

definition responsible :: "complaint \<Rightarrow> party option" where
  "responsible c =
     (case current_worker c of
        Some w \<Rightarrow> Some (Worker w)
      | None \<Rightarrow> (case current_officer c of Some off \<Rightarrow> Some (Officer off) | None \<Rightarrow> None))"

fun party_name :: "party \<Rightarrow> string" where
  "party_name (Worker w) = worker_full_name w"
| "party_name (Officer off) = officer_full_name off"

definition escalation_execution :: "int \<Rightarrow> complaint \<Rightarrow> officer \<Rightarrow> error + escalation" where
  "escalation_execution now c senior_officer =
     (case responsible c of
        None \<Rightarrow> Inl AttributeError
      | Some r \<Rightarrow>
          Inr \<lparr>escalated_complaint = complaint_id c,
               escalated_from = current_officer c,
               escalated_to = senior_officer,
               reason = ''SLA breach. Previously assigned to '' @ party_name r,
               escalated_at = now\<rparr>)"

record responsible_description =
  workerId :: "nat option"
  officerId :: "nat option"
  displayText :: string

text \<open>Modelled from the spec: \<^verbatim>\<open>resolve(complaint)\<close>, the Resolver's description of who
  holds the complaint. It never fails: for a complaint with neither worker nor officer the
  display text is the placeholder "Unassigned"; otherwise it names the worker and the
  officer in the words of the quoted code.\<close>

definition resolve :: "complaint \<Rightarrow> responsible_description" where
  "resolve c =
     \<lparr>workerId = map_option worker_id (current_worker c),
      officerId = map_option officer_id (current_officer c),
      displayText =
        (if current_worker c = None \<and> current_officer c = None then ''Unassigned''
         else escalation_reason [] c)\<rparr>"

section \<open>The Escalation Target Selector\<close>

text \<open>
  \<^verbatim>\<open>
  def _find_senior_officer(complaint):
      return Officer.objects.filter(
          department=complaint.department
      ).exclude(
          id=complaint.current_officer.id
      ).annotate(
          complaint_count=Count('complaints')
      ).order_by('complaint_count').first()
  \<close>
  \<^verbatim>\<open>Count('complaints')\<close> counts every complaint that refers to the officer, whatever
  its status. Reading \<^verbatim>\<open>.id\<close> of a missing current officer raises. The query names no
  ordering key besides the count: which of several officers of equal count comes first is
  the database's choice, and nothing in the code fixes it. The function below is one
  such choice, made so that it can be computed (rows of equal count in the order of the
  list); \<open>query_ordering\<close> further down says what the query leaves open.
\<close>

definition complaint_count :: "complaint list \<Rightarrow> officer \<Rightarrow> nat" where
  "complaint_count cs off =
     length (filter (\<lambda>c. map_option officer_id (current_officer c) = Some (officer_id off)) cs)"

definition rankCandidates :: "officer list \<Rightarrow> complaint list \<Rightarrow> nat \<Rightarrow> nat \<Rightarrow> officer list" where
  "rankCandidates officers cs departmentId excludeOfficerId =
     sort_key (complaint_count cs)
       (filter (\<lambda>off. officer_id off \<noteq> excludeOfficerId)
          (filter (\<lambda>off. officer_department off = departmentId) officers))"

definition first :: "'a list \<Rightarrow> 'a option" where
  "first xs = (case xs of [] \<Rightarrow> None | x # _ \<Rightarrow> Some x)"

definition find_senior_officer ::
  "officer list \<Rightarrow> complaint list \<Rightarrow> complaint \<Rightarrow> error + officer option" where
  "find_senior_officer officers cs c =
     (case current_officer c of
        None \<Rightarrow> Inl AttributeError
      | Some cur \<Rightarrow> Inr (first (rankCandidates officers cs (department c) (officer_id cur))))"

text \<open>The quantities the specification's wording names, for comparison with the query: the
  candidate set, and an officer's load as the number of non-terminal complaints assigned
  to them.\<close>

definition candidates :: "officer list \<Rightarrow> nat \<Rightarrow> nat \<Rightarrow> officer list" where
  "candidates officers departmentId excludeOfficerId =
     filter (\<lambda>off. officer_department off = departmentId \<and> officer_id off \<noteq> excludeOfficerId)
       officers"

text \<open>What \<^verbatim>\<open>order_by('complaint_count')\<close> promises of the rows it yields: they are the
  candidates, each once, in ascending order of the count. Any such list may be the
  database's answer; \<^verbatim>\<open>.first()\<close> takes its head.\<close>

definition query_ordering ::
  "officer list \<Rightarrow> complaint list \<Rightarrow> nat \<Rightarrow> nat \<Rightarrow> officer list \<Rightarrow> bool" where
  "query_ordering officers cs departmentId excludeOfficerId rows =
     (mset rows = mset (candidates officers departmentId excludeOfficerId)
      \<and> sorted (map (complaint_count cs) rows))"

definition active_load :: "complaint list \<Rightarrow> officer \<Rightarrow> nat" where
  "active_load cs off =
     length (filter (\<lambda>c. map_option officer_id (current_officer c) = Some (officer_id off)
                          \<and> \<not> is_terminal (status c)) cs)"

section \<open>The Recorder, the Dispatcher and the Driver\<close>

text \<open>Modelled from the spec: the idempotency rule of the Recorder and the Driver. A
  complaint was already escalated in the current window when its last-escalated timestamp
  lies within the current escalation-hours window, the \<open>escalation_hours\<close> that end at
  \<open>now\<close>. (The models of the schema have no such timestamp; the specification adds it.)\<close>

definition escalated_in_window :: "complaint \<Rightarrow> int \<Rightarrow> sla_config \<Rightarrow> bool" where
  "escalated_in_window c now p =
     (case last_escalated_at c of
        None \<Rightarrow> False
      | Some t \<Rightarrow> now - timedelta_hours (escalation_hours p) \<le> t \<and> t \<le> now)"

text \<open>Modelled from the spec: "raise priority by one level capped at CRITICAL", on the
  three-valued priority. The guide says the same of the integer column:
  "Increases priority (max: 3 - Critical)".\<close>

fun raise_priority :: "priority \<Rightarrow> priority" where
  "raise_priority NORMAL = HIGH"
| "raise_priority HIGH = CRITICAL"
| "raise_priority CRITICAL = CRITICAL"

text \<open>Modelled from the spec: the level of a priority in the integer column of the schema
  (1 = Normal, 2 = High, 3 = Critical), which the badge of the timer card reads.\<close>

fun priority_level :: "priority \<Rightarrow> int" where
  "priority_level NORMAL = 1"
| "priority_level HIGH = 2"
| "priority_level CRITICAL = 3"

text \<open>Modelled from the spec: the Escalation Recorder. For a complaint already escalated in
  the window it changes nothing. Otherwise it creates the Escalation record, whose reason
  is the one the quoted code builds, and in the same update sets the reassignment-pending
  status, the new officer, the raised priority, the incremented count and the
  last-escalated timestamp. Passes are modelled one at a time, with no concurrent writer,
  so the version check of the update always succeeds and is not represented.\<close>

definition recorder ::
  "int \<Rightarrow> sla_config \<Rightarrow> string \<Rightarrow> complaint \<Rightarrow> officer \<Rightarrow> complaint \<times> escalation option" where
  "recorder now p reason0 c target =
     (if escalated_in_window c now p then (c, None)
      else
        (c\<lparr>status := PENDING_REASSIGNMENT,
           current_officer := Some target,
           priority := raise_priority (priority c),
           escalation_count := Suc (escalation_count c),
           last_escalated_at := Some now,
           updated_at := now\<rparr>,
         Some \<lparr>escalated_complaint = complaint_id c,
               escalated_from = current_officer c,
               escalated_to = target,
               reason = escalation_reason reason0 c,
               escalated_at = now\<rparr>))"

text \<open>The Notification Dispatcher is modelled as the list of deliveries it attempts.
  Deliveries are independent and never undo a recorded change, so their failures and
  retries do not reach the state modelled here.\<close>

datatype recipient = ToOfficer nat | ToWorker nat | ToCitizen nat

datatype template =
  EscalationAlert | Reassurance | PerformanceNotice | Informational | SlaWarning sla_state

record notification =
  recipient :: recipient
  template :: template
  about :: nat

text \<open>Modelled from the spec: the recipients of an escalation event, "the new target
  officer, the original complainant, the previously responsible worker and the previous
  officer" (\<^verbatim>\<open>send_escalation_email\<close> is not among the sources).\<close>

definition escalation_notifications :: "complaint \<Rightarrow> officer \<Rightarrow> notification list" where
  "escalation_notifications c target =
     [\<lparr>recipient = ToOfficer (officer_id target), template = EscalationAlert,
       about = complaint_id c\<rparr>,
      \<lparr>recipient = ToCitizen (citizen c), template = Reassurance, about = complaint_id c\<rparr>]
     @ (case current_worker c of
          Some w \<Rightarrow> [\<lparr>recipient = ToWorker (worker_id w), template = PerformanceNotice,
                      about = complaint_id c\<rparr>]
        | None \<Rightarrow> [])
     @ (case current_officer c of
          Some off \<Rightarrow> [\<lparr>recipient = ToOfficer (officer_id off), template = Informational,
                        about = complaint_id c\<rparr>]
        | None \<Rightarrow> [])"

text \<open>Modelled from the spec: the recipients of a warning event, "the current worker and
  current officer only".\<close>

definition warning_notifications :: "sla_state \<Rightarrow> complaint \<Rightarrow> notification list" where
  "warning_notifications urgency c =
     (case current_worker c of
        Some w \<Rightarrow> [\<lparr>recipient = ToWorker (worker_id w), template = SlaWarning urgency,
                    about = complaint_id c\<rparr>]
      | None \<Rightarrow> [])
     @ (case current_officer c of
          Some off \<Rightarrow> [\<lparr>recipient = ToOfficer (officer_id off), template = SlaWarning urgency,
                        about = complaint_id c\<rparr>]
        | None \<Rightarrow> [])"

text \<open>Modelled from the spec: "no warning has been sent since the complaint last entered
  this threshold (tracked via last-warned timestamp)". The complaint enters the threshold
  when its remaining time falls to the warning threshold; a warning was sent since then
  when, at the last-warned timestamp, the remaining time was already within it.\<close>

definition warned_since_entry :: "complaint \<Rightarrow> sla_config \<Rightarrow> int \<Rightarrow> bool" where
  "warned_since_entry c p warningThreshold =
     (case last_warned_at c of
        None \<Rightarrow> False
      | Some t \<Rightarrow> of_nat (escalation_hours p) - hours_since_creation t c
                    \<le> of_int warningThreshold)"

record config =
  warning_threshold :: int
  critical_threshold :: int
  initial_reason :: string

datatype event =
  ConfigurationError nat
  | NoTargetAvailable nat
  | PipelineFailure nat error

record outcome =
  updated :: complaint
  recorded :: "escalation list"
  sent :: "notification list"
  logged :: "event list"

text \<open>Modelled from the spec: the outcome of a complaint the pass leaves alone.\<close>

definition unchanged :: "complaint \<Rightarrow> outcome" where
  "unchanged c = \<lparr>updated = c, recorded = [], sent = [], logged = []\<rparr>"

text \<open>Modelled from the spec: what the Driver does with one complaint of its pass, given the
  registry, the officer table and the complaint table as it stands (the pass that acts;
  the dry-run mode, which changes nothing and sends nothing, is not modelled). Terminal
  complaints are not part of the pass. A category without a policy is logged and skipped.
  A complaint in the warning band is warned once per entry into the band. An overdue
  complaint not already escalated in the window goes through Resolver, Selector (the
  quoted \<^verbatim>\<open>_find_senior_officer\<close>), Recorder and Dispatcher; without an eligible target
  its priority becomes CRITICAL, the event is logged and no Escalation is recorded; a
  failure of the Selector is logged and the complaint skipped, as every per-complaint
  failure is.\<close>

definition process ::
  "config \<Rightarrow> int \<Rightarrow> (nat \<rightharpoonup> sla_config) \<Rightarrow> officer list \<Rightarrow> complaint list \<Rightarrow> complaint
   \<Rightarrow> outcome" where
  "process cfg now registry officers cs c =
     (if is_terminal (status c) then unchanged c
      else case lookup registry (category c) of
        Inl err \<Rightarrow> (unchanged c)\<lparr>logged := [ConfigurationError (complaint_id c)]\<rparr>
      | Inr p \<Rightarrow>
          (let e = evaluate c now p (warning_threshold cfg) in
           if state e = WARNING \<or> state e = CRITICAL_STATE then
             (if warned_since_entry c p (warning_threshold cfg) then unchanged c
              else
                \<lparr>updated = c\<lparr>last_warned_at := Some now, updated_at := now\<rparr>,
                 recorded = [],
                 sent = warning_notifications
                          (notification_urgency (critical_threshold cfg) p e) c,
                 logged = []\<rparr>)
           else if state e = OVERDUE then
             (if escalated_in_window c now p then unchanged c
              else case find_senior_officer officers cs c of
                Inl err \<Rightarrow> (unchanged c)\<lparr>logged := [PipelineFailure (complaint_id c) err]\<rparr>
              | Inr None \<Rightarrow>
                  \<lparr>updated = c\<lparr>priority := CRITICAL, updated_at := now\<rparr>,
                   recorded = [], sent = [],
                   logged = [NoTargetAvailable (complaint_id c)]\<rparr>
              | Inr (Some target) \<Rightarrow>
                  (case recorder now p (initial_reason cfg) c target of
                     (c', None) \<Rightarrow> unchanged c'
                   | (c', Some esc) \<Rightarrow>
                       \<lparr>updated = c', recorded = [esc],
                        sent = escalation_notifications c target, logged = []\<rparr>))
           else unchanged c))"

record store =
  complaints :: "complaint list"
  officers :: "officer list"
  sla_configs :: "nat \<rightharpoonup> sla_config"
  escalations :: "escalation list"
  outbox :: "notification list"
  event_log :: "event list"

text \<open>Modelled from the spec: one pass of the Driver. The complaints are taken in the order
  of the table; each one is processed against the table as the complaints before it left
  it. The trace lists the outcome for each complaint, in order.\<close>

fun driver_trace ::
  "config \<Rightarrow> int \<Rightarrow> (nat \<rightharpoonup> sla_config) \<Rightarrow> officer list \<Rightarrow> complaint list \<Rightarrow> complaint list
   \<Rightarrow> outcome list" where
  "driver_trace cfg now registry offs seen [] = []"
| "driver_trace cfg now registry offs seen (c # todo) =
     (let r = process cfg now registry offs (seen @ c # todo) c
      in r # driver_trace cfg now registry offs (seen @ [updated r]) todo)"

text \<open>Modelled from the spec: the trace of a pass over the complaint table of a store.\<close>

definition pass_trace :: "config \<Rightarrow> int \<Rightarrow> store \<Rightarrow> outcome list" where
  "pass_trace cfg now s =
     driver_trace cfg now (sla_configs s) (officers s) [] (complaints s)"

text \<open>Modelled from the spec: the store after a pass. The complaints are replaced by their
  updated versions; the Escalation records, the attempted deliveries and the logged events
  are appended.\<close>

definition driver_pass :: "config \<Rightarrow> int \<Rightarrow> store \<Rightarrow> store" where
  "driver_pass cfg now s =
     (let rs = pass_trace cfg now s
      in s\<lparr>complaints := map updated rs,
           escalations := escalations s @ concat (map recorded rs),
           outbox := outbox s @ concat (map sent rs),
           event_log := event_log s @ concat (map logged rs)\<rparr>)"

text \<open>Modelled from the spec: a complaint is in the warning band at \<open>now\<close> when it is
  part of the pass, has a policy, and the Evaluator classifies it WARNING (or CRITICAL).\<close>

definition in_warning_band ::
  "config \<Rightarrow> (nat \<rightharpoonup> sla_config) \<Rightarrow> int \<Rightarrow> complaint \<Rightarrow> bool" where
  "in_warning_band cfg registry now c =
     (\<not> is_terminal (status c)
      \<and> (case registry (category c) of
           None \<Rightarrow> False
         | Some p \<Rightarrow> state (evaluate c now p (warning_threshold cfg)) = WARNING
                     \<or> state (evaluate c now p (warning_threshold cfg)) = CRITICAL_STATE))"

text \<open>Modelled from the spec: the complaints a pass escalates. They are not terminal, have
  a policy whose deadline is reached, were not escalated in the current window, and have a
  current officer and a non-empty candidate set.\<close>

definition eligible :: "int \<Rightarrow> (nat \<rightharpoonup> sla_config) \<Rightarrow> officer list \<Rightarrow> complaint \<Rightarrow> bool" where
  "eligible now registry offs c =
     (\<not> is_terminal (status c)
      \<and> (case registry (category c) of
           None \<Rightarrow> False
         | Some p \<Rightarrow>
             deadline_reached now c p \<and> \<not> escalated_in_window c now p
             \<and> (case current_officer c of
                  None \<Rightarrow> False
                | Some cur \<Rightarrow> candidates offs (department c) (officer_id cur) \<noteq> [])))"

text \<open>Modelled from the spec: at index \<open>i\<close> of the complaint table, a warning was
  recorded since the complaint entered the warning band.\<close>

definition warned_at_index :: "config \<Rightarrow> nat \<Rightarrow> store \<Rightarrow> bool" where
  "warned_at_index cfg i s =
     (case sla_configs s (category (complaints s ! i)) of
        None \<Rightarrow> False
      | Some p \<Rightarrow> warned_since_entry (complaints s ! i) p (warning_threshold cfg))"

section \<open>Example data\<close>

text \<open>The complaint of the guide's timeline: a pothole complaint with a 12 hour escalation
  deadline, assigned to a worker and supervised by an officer; a department with two more
  officers; an unassigned complaint; a complaint escalated once, at hour 12; an officer
  of another department; the timer of an overdue complaint.\<close>

definition workerA :: worker where
  "workerA = \<lparr>worker_id = 1, worker_full_name = ''John Worker''\<rparr>"

definition officerB :: officer where
  "officerB = \<lparr>officer_id = 1, officer_full_name = ''Officer Sharma'', officer_department = 1\<rparr>"

definition officerC :: officer where
  "officerC = \<lparr>officer_id = 2, officer_full_name = ''Officer Rao'', officer_department = 1\<rparr>"

definition officerD :: officer where
  "officerD = \<lparr>officer_id = 3, officer_full_name = ''Officer Iyer'', officer_department = 1\<rparr>"

definition pothole_sla :: sla_config where
  "pothole_sla = \<lparr>resolution_hours = 24, escalation_hours = 12\<rparr>"

definition sla_table :: "nat \<rightharpoonup> sla_config" where
  "sla_table = [1 \<mapsto> pothole_sla]"

definition complaintA :: complaint where
  "complaintA =
     \<lparr>complaint_id = 42, citizen = 7, category = 1, department = 1, status = IN_PROGRESS,
      priority = NORMAL, created_at = 0, updated_at = 0, completed_at = None,
      current_worker = Some workerA, current_officer = Some officerB,
      escalation_count = 0, last_warned_at = None, last_escalated_at = None\<rparr>"

definition unassigned_complaint :: complaint where
  "unassigned_complaint =
     complaintA\<lparr>complaint_id := 43, status := SUBMITTED,
                current_worker := None, current_officer := None\<rparr>"

definition handled_by :: "nat \<Rightarrow> status \<Rightarrow> officer \<Rightarrow> complaint" where
  "handled_by n st off =
     complaintA\<lparr>complaint_id := n, status := st, current_worker := None,
                current_officer := Some off\<rparr>"

definition officer_table :: "officer list" where
  "officer_table = [officerB, officerD, officerC]"

definition complaint_table :: "complaint list" where
  "complaint_table =
     [complaintA, handled_by 1 RESOLVED officerC, handled_by 2 RESOLVED officerC,
      handled_by 3 IN_PROGRESS officerD]"

definition default_config :: config where
  "default_config =
     \<lparr>warning_threshold = 2, critical_threshold = 1,
      initial_reason = ''Auto-escalation: SLA breach. ''\<rparr>"

definition store1 :: store where
  "store1 =
     \<lparr>complaints = [complaintA, unassigned_complaint],
      officers = officer_table,
      sla_configs = sla_table,
      escalations = [], outbox = [], event_log = []\<rparr>"

definition other_department_officer :: officer where
  "other_department_officer =
     \<lparr>officer_id = 9, officer_full_name = ''Officer Khan'', officer_department = 2\<rparr>"

definition overdue_timer :: sla_timer where
  "overdue_timer =
     \<lparr>timer_status = ''overdue'', icon = ''!'', title = ''SLA Exceeded'', timer_priority = 3,
      priority_text = ''Critical'', hours_elapsed = 15, is_overdue = True, hours_overdue = 3,
      hours_remaining = 0, escalation_deadline = 12, resolution_deadline = 24,
      timer_escalation_count = 1\<rparr>"

definition escalated_complaint_example :: complaint where
  "escalated_complaint_example =
     complaintA\<lparr>escalation_count := 1, last_escalated_at := Some (timedelta_hours 12)\<rparr>"

section \<open>Properties of the timer card\<close>

lemma render_timer_stats_declined:
  "timer_status t = ''declined'' \<Longrightarrow> render_timer_stats t = None"
  by (simp add: render_timer_stats_def)

lemma render_timer_stats_completed:
  "timer_status t = ''completed'' \<Longrightarrow>
   map timerStatLabel (the (render_timer_stats t)) =
     [''Total Time'', ''SLA Deadline'', ''Resolution Target'']"
  by (simp add: render_timer_stats_def)

text \<open>
  C10. On the admin complaint detail page the SLA timer card is rendered exactly when the
  complaint's \<^verbatim>\<open>sla_timer\<close> field is present and non-null; a complaint without it renders
  the detail page with no card. When the timer's status is \<^verbatim>\<open>declined\<close> the statistics
  grid is not rendered. When it is \<^verbatim>\<open>completed\<close> the grid shows the timer's elapsed hours
  under the label "Total Time", then the two deadlines, and neither a "Time Remaining"
  nor an "Overdue By" figure. For every other status the grid shows the elapsed hours
  under "Time Elapsed", then the overdue hours under "Overdue By" or the remaining hours
  under "Time Remaining", then the two deadlines.
\<close>

theorem sla_timer_card_rendering:
  "ComplaintDetail False (Some c) = Detail (render_sla_timer c)
   \<and> (render_sla_timer c \<noteq> None \<longleftrightarrow> sla_timer c \<noteq> None)
   \<and> (\<forall>t. sla_timer c = Some t \<longrightarrow>
        (\<exists>tc. render_sla_timer c = Some tc
           \<and> (timer_status t = ''declined'' \<longrightarrow> timerStats tc = None)
           \<and> (timer_status t = ''completed'' \<longrightarrow>
                stat_labels tc = [''Total Time'', ''SLA Deadline'', ''Resolution Target'']
                \<and> ''Time Remaining'' \<notin> set (stat_labels tc)
                \<and> ''Overdue By'' \<notin> set (stat_labels tc)
                \<and> timerStats tc =
                     Some [\<lparr>timerStatLabel = ''Total Time'', timerStatValue = hours_elapsed t\<rparr>,
                           \<lparr>timerStatLabel = ''SLA Deadline'',
                            timerStatValue = escalation_deadline t\<rparr>,
                           \<lparr>timerStatLabel = ''Resolution Target'',
                            timerStatValue = resolution_deadline t\<rparr>])
           \<and> (timer_status t \<noteq> ''declined'' \<and> timer_status t \<noteq> ''completed'' \<longrightarrow>
                timerStats tc =
                  Some [\<lparr>timerStatLabel = ''Time Elapsed'', timerStatValue = hours_elapsed t\<rparr>,
                        \<lparr>timerStatLabel =
                           (if is_overdue t then ''Overdue By'' else ''Time Remaining''),
                         timerStatValue =
                           (if is_overdue t then hours_overdue t else hours_remaining t)\<rparr>,
                        \<lparr>timerStatLabel = ''SLA Deadline'',
                         timerStatValue = escalation_deadline t\<rparr>,
                        \<lparr>timerStatLabel = ''Resolution Target'',
                         timerStatValue = resolution_deadline t\<rparr>])))"
  by (auto simp: ComplaintDetail_def render_sla_timer_def render_timer_card_def
      stat_labels_def render_timer_stats_def split: option.splits)

theorem sla_timer_card_rendering_witness:
  "sla_timer \<lparr>complaint_status = ''COMPLETED'', sla_timer = Some completed_timer\<rparr>
     = Some completed_timer
   \<and> timer_status completed_timer = ''completed''
   \<and> timerStats (the (render_sla_timer
          \<lparr>complaint_status = ''COMPLETED'', sla_timer = Some completed_timer\<rparr>))
       = Some [\<lparr>timerStatLabel = ''Total Time'', timerStatValue = 5\<rparr>,
               \<lparr>timerStatLabel = ''SLA Deadline'', timerStatValue = 12\<rparr>,
               \<lparr>timerStatLabel = ''Resolution Target'', timerStatValue = 24\<rparr>]
   \<and> timerStats (the (render_sla_timer
          \<lparr>complaint_status = ''IN_PROCESS'', sla_timer = Some overdue_timer\<rparr>))
       = Some [\<lparr>timerStatLabel = ''Time Elapsed'', timerStatValue = 15\<rparr>,
               \<lparr>timerStatLabel = ''Overdue By'', timerStatValue = 3\<rparr>,
               \<lparr>timerStatLabel = ''SLA Deadline'', timerStatValue = 12\<rparr>,
               \<lparr>timerStatLabel = ''Resolution Target'', timerStatValue = 24\<rparr>]
   \<and> timerStats (the (render_sla_timer
          \<lparr>complaint_status = ''DECLINED'',
           sla_timer = Some (completed_timer\<lparr>timer_status := ''declined''\<rparr>)\<rparr>)) = None
   \<and> render_sla_timer \<lparr>complaint_status = ''PENDING'', sla_timer = None\<rparr> = None"
  using sla_timer_card_rendering
    [of "\<lparr>complaint_status = ''COMPLETED'', sla_timer = Some completed_timer\<rparr>"]
    sla_timer_card_rendering
    [of "\<lparr>complaint_status = ''IN_PROCESS'', sla_timer = Some overdue_timer\<rparr>"]
    sla_timer_card_rendering
    [of "\<lparr>complaint_status = ''DECLINED'',
          sla_timer = Some (completed_timer\<lparr>timer_status := ''declined''\<rparr>)\<rparr>"]
    sla_timer_card_rendering [of "\<lparr>complaint_status = ''PENDING'', sla_timer = None\<rparr>"]
  by (auto simp: completed_timer_def overdue_timer_def)

section \<open>Properties of the engine\<close>

subsection \<open>Candidates and ranking\<close>

lemma rankCandidates_mset:
  "mset (rankCandidates offs cs d x) = mset (candidates offs d x)"
  by (simp add: rankCandidates_def candidates_def conj_commute)

lemma rankCandidates_set:
  "set (rankCandidates offs cs d x) = set (candidates offs d x)"
  by (auto simp: rankCandidates_def candidates_def)

lemma rankCandidates_Nil_iff:
  "rankCandidates offs cs d x = [] \<longleftrightarrow> candidates offs d x = []"
  using rankCandidates_set [of offs cs d x] by (metis set_empty)

lemma rankCandidates_candidates:
  "rankCandidates offs cs d x = sort_key (complaint_count cs) (candidates offs d x)"
  by (simp add: rankCandidates_def candidates_def conj_commute)

lemma first_None_iff: "first xs = None \<longleftrightarrow> xs = []"
  by (cases xs) (simp_all add: first_def)

lemma first_Some_not_Nil: "first xs = Some x \<Longrightarrow> xs \<noteq> []"
  by (cases xs) (simp_all add: first_def)

lemma state_overdue_iff:
  "\<not> is_terminal (status c) \<Longrightarrow> state (evaluate c now p w) = OVERDUE \<longleftrightarrow> deadline_reached now c p"
  by (simp add: evaluate_def)

lemma state_warning_iff:
  "\<not> is_terminal (status c) \<Longrightarrow>
   state (evaluate c now p w) = WARNING \<longleftrightarrow>
     \<not> deadline_reached now c p
     \<and> of_nat (escalation_hours p) - hours_since_creation now c \<le> of_int w"
  by (simp add: evaluate_def)

lemma state_not_critical [simp]: "state (evaluate c now p w) \<noteq> CRITICAL_STATE"
  by (simp add: evaluate_def)

subsection \<open>The Evaluator\<close>

lemma deadline_reached_iff_hours:
  "deadline_reached now c p \<longleftrightarrow> of_nat (escalation_hours p) \<le> hours_since_creation now c"
proof -
  have "deadline_reached now c p \<longleftrightarrow> int (escalation_hours p) * 3600000000 \<le> now - created_at c"
    by (auto simp: deadline_reached_def escalation_deadline_of_def timedelta_hours_def)
  also have "\<dots> \<longleftrightarrow> (of_int (int (escalation_hours p) * 3600000000) :: rat) \<le> of_int (now - created_at c)"
    by (simp only: of_int_le_iff)
  also have "\<dots> \<longleftrightarrow> (of_nat (escalation_hours p) :: rat) \<le> of_int (now - created_at c) / 3600000000"
    by (simp add: pos_le_divide_eq)
  finally show ?thesis by (simp add: hours_since_creation_def total_hours_def)
qed

text \<open>
  C1. For a complaint that is not terminal, with policy \<open>escalation_hours = H\<close> and
  creation time \<open>T\<close>, \<open>evaluate\<close> reports the elapsed time \<open>now - T\<close> in hours and the
  state OVERDUE exactly when the elapsed hours are at least \<open>H\<close>: at \<open>now = T + H\<close> the
  state is OVERDUE, at any \<open>now\<close> before \<open>T + H\<close> it is not. It reports WARNING when the
  remaining time \<open>H - elapsed\<close> is positive and at most the warning threshold, and
  ON_TRACK when it is positive and above the threshold.
\<close>

theorem evaluate_classifies:
  assumes "\<not> is_terminal (status c)"
  shows "elapsedHours (evaluate c now p w) = of_int (now - created_at c) / 3600000000
    \<and> (state (evaluate c now p w) = OVERDUE
         \<longleftrightarrow> of_nat (escalation_hours p) \<le> elapsedHours (evaluate c now p w))
    \<and> (now = created_at c + timedelta_hours (escalation_hours p)
         \<longrightarrow> state (evaluate c now p w) = OVERDUE)
    \<and> (now < created_at c + timedelta_hours (escalation_hours p)
         \<longrightarrow> state (evaluate c now p w) \<noteq> OVERDUE)
    \<and> (0 < of_nat (escalation_hours p) - elapsedHours (evaluate c now p w)
          \<and> of_nat (escalation_hours p) - elapsedHours (evaluate c now p w) \<le> of_int w
         \<longrightarrow> state (evaluate c now p w) = WARNING)
    \<and> (0 < of_nat (escalation_hours p) - elapsedHours (evaluate c now p w)
          \<and> of_int w < of_nat (escalation_hours p) - elapsedHours (evaluate c now p w)
         \<longrightarrow> state (evaluate c now p w) = ON_TRACK)"
proof -
  have e: "elapsedHours (evaluate c now p w) = hours_since_creation now c"
    using assms by (simp add: evaluate_def)
  have d: "deadline_reached now c p \<longleftrightarrow> of_nat (escalation_hours p) \<le> hours_since_creation now c"
    by (rule deadline_reached_iff_hours)
  have d1: "now = created_at c + timedelta_hours (escalation_hours p) \<Longrightarrow> deadline_reached now c p"
    by (simp add: deadline_reached_def escalation_deadline_of_def)
  have d2: "now < created_at c + timedelta_hours (escalation_hours p) \<Longrightarrow> \<not> deadline_reached now c p"
    by (simp add: deadline_reached_def escalation_deadline_of_def)
  show ?thesis
    using assms d d1 d2 unfolding e
    by (auto simp: evaluate_def hours_since_creation_def total_hours_def)
qed

theorem evaluate_classifies_witness:
  "\<not> is_terminal (status complaintA)
   \<and> state (evaluate complaintA (timedelta_hours 12) pothole_sla 2) = OVERDUE
   \<and> state (evaluate complaintA (timedelta_hours 12 - 1) pothole_sla 2) = WARNING
   \<and> state (evaluate complaintA (timedelta_hours 10) pothole_sla 2) = WARNING
   \<and> state (evaluate complaintA (timedelta_hours 9) pothole_sla 2) = ON_TRACK
   \<and> elapsedHours (evaluate complaintA (timedelta_hours 9) pothole_sla 2) = 9"
  using evaluate_classifies [of complaintA "timedelta_hours 12" pothole_sla 2]
    evaluate_classifies [of complaintA "timedelta_hours 12 - 1" pothole_sla 2]
    evaluate_classifies [of complaintA "timedelta_hours 10" pothole_sla 2]
    evaluate_classifies [of complaintA "timedelta_hours 9" pothole_sla 2]
  by (simp add: complaintA_def pothole_sla_def is_terminal_def timedelta_hours_def)






subsection \<open>The Selector\<close>

lemma first_sort_key_min:
  assumes "first (sort_key f xs) = Some x"
  shows "x \<in> set xs" "\<And>y. y \<in> set xs \<Longrightarrow> f x \<le> f y"
proof -
  obtain ys where ys: "sort_key f xs = x # ys"
    using assms by (cases "sort_key f xs") (simp_all add: first_def)
  have "x \<in> set (sort_key f xs)" unfolding ys by simp
  then show "x \<in> set xs" by simp
  fix y assume "y \<in> set xs"
  then have "y \<in> set (x # ys)" using ys by (metis set_sort)
  moreover have "sorted (map f (x # ys))" using ys by (metis sorted_sort_key)
  ultimately show "f x \<le> f y" by auto
qed

text \<open>
  The selected officer need not be one with the fewest non-terminal complaints. Officer
  Rao holds two resolved complaints and no open one, officer Iyer one open complaint: the
  query counts two against one and selects Iyer.
\<close>

theorem selector_active_load_counterexample:
  "find_senior_officer officer_table complaint_table complaintA = Inr (Some officerD)
   \<and> officerC \<in> set (candidates officer_table (department complaintA) (officer_id officerB))
   \<and> active_load complaint_table officerC < active_load complaint_table officerD"
  by code_simp

text \<open>
  C4 (as the code has it). For a complaint with a current officer, the Selector draws its
  candidates from exactly the officers of the complaint's department other than the
  current officer, ranks them in ascending order of the number of complaints that refer
  to each (terminal or not), and returns a candidate with the least such number; it
  returns none exactly when there is no candidate.
\<close>

theorem selector_ranks_by_complaint_count:
  assumes "current_officer c = Some cur"
  shows "find_senior_officer offs cs c
           = Inr (first (rankCandidates offs cs (department c) (officer_id cur)))
     \<and> mset (rankCandidates offs cs (department c) (officer_id cur))
         = mset (candidates offs (department c) (officer_id cur))
     \<and> sorted (map (complaint_count cs) (rankCandidates offs cs (department c) (officer_id cur)))
     \<and> (find_senior_officer offs cs c = Inr None
          \<longleftrightarrow> candidates offs (department c) (officer_id cur) = [])
     \<and> (\<forall>x. find_senior_officer offs cs c = Inr (Some x) \<longrightarrow>
           x \<in> set (candidates offs (department c) (officer_id cur))
           \<and> (\<forall>y \<in> set (candidates offs (department c) (officer_id cur)).
                 complaint_count cs x \<le> complaint_count cs y))"
proof -
  let ?cands = "candidates offs (department c) (officer_id cur)"
  let ?rank = "rankCandidates offs cs (department c) (officer_id cur)"
  have 1: "find_senior_officer offs cs c = Inr (first ?rank)"
    using assms by (simp add: find_senior_officer_def)
  have 2: "mset ?rank = mset ?cands" by (rule rankCandidates_mset)
  have 3: "sorted (map (complaint_count cs) ?rank)"
    by (simp add: rankCandidates_def)
  have 4: "first ?rank = None \<longleftrightarrow> ?cands = []"
    by (simp add: first_None_iff rankCandidates_Nil_iff)
  have 5: "\<forall>x. first ?rank = Some x \<longrightarrow>
           x \<in> set ?cands \<and> (\<forall>y \<in> set ?cands. complaint_count cs x \<le> complaint_count cs y)"
    unfolding rankCandidates_candidates using first_sort_key_min by metis
  show ?thesis unfolding 1 using 2 3 4 5 by simp
qed

theorem selector_ranks_by_complaint_count_witness:
  "current_officer complaintA = Some officerB
   \<and> find_senior_officer officer_table complaint_table complaintA = Inr (Some officerD)
   \<and> complaint_count complaint_table officerD \<le> complaint_count complaint_table officerC"
  using selector_ranks_by_complaint_count
    [of complaintA officerB officer_table complaint_table]
  by (simp add: find_senior_officer_def rankCandidates_def first_def complaint_count_def
      candidates_def officer_table_def complaint_table_def complaintA_def handled_by_def
      officerB_def officerC_def officerD_def)

lemma query_ordering_rankCandidates:
  "query_ordering offs cs d x (rankCandidates offs cs d x)"
  by (simp add: query_ordering_def rankCandidates_mset) (simp add: rankCandidates_def)

lemma query_ordering_first:
  assumes "query_ordering offs cs d x rows"
  shows "first rows = None \<longleftrightarrow> candidates offs d x = []"
    and "first rows = Some y \<Longrightarrow> y \<in> set (candidates offs d x)"
    and "first rows = Some y \<Longrightarrow> z \<in> set (candidates offs d x)
         \<Longrightarrow> complaint_count cs y \<le> complaint_count cs z"
proof -
  have m: "mset rows = mset (candidates offs d x)"
    and srt: "sorted (map (complaint_count cs) rows)"
    using assms by (simp_all add: query_ordering_def)
  have st: "set rows = set (candidates offs d x)" using m by (metis set_mset_mset)
  show "first rows = None \<longleftrightarrow> candidates offs d x = []"
    using st by (cases rows) (auto simp: first_def)
  show "first rows = Some y \<Longrightarrow> y \<in> set (candidates offs d x)"
    using st by (cases rows) (auto simp: first_def)
  show "first rows = Some y \<Longrightarrow> z \<in> set (candidates offs d x)
         \<Longrightarrow> complaint_count cs y \<le> complaint_count cs z"
    using st srt by (cases rows) (auto simp: first_def)
qed

text \<open>
  The query does not decide between officers of equal count. Officers Rao (id 2) and Iyer
  (id 3) are both candidates with no complaint; the rows may come as Iyer, Rao or as Rao,
  Iyer, both in ascending order of the count, and the first row differs.
\<close>

theorem selector_tie_counterexample:
  "query_ordering officer_table [complaintA] (department complaintA) (officer_id officerB)
     [officerD, officerC]
   \<and> query_ordering officer_table [complaintA] (department complaintA) (officer_id officerB)
     [officerC, officerD]
   \<and> first [officerD, officerC] = Some officerD
   \<and> first [officerC, officerD] = Some officerC
   \<and> complaint_count [complaintA] officerC = complaint_count [complaintA] officerD
   \<and> officer_id officerC < officer_id officerD"
  by (simp add: query_ordering_def candidates_def complaint_count_def first_def
      officer_table_def complaintA_def officerB_def officerC_def officerD_def)

text \<open>
  C5 (as the code has it). Whatever order the database yields the rows of the query in,
  the officer selected is a candidate with the least complaint count, and none exactly
  when there is no candidate. When one candidate has a count strictly below every other
  candidate's, that officer is selected in every run over the same tables. Among several
  candidates of the least count the code names no key: the choice is the database's.
  The rows \<open>rankCandidates\<close> computes are one such order, and the Selector takes its
  first.
\<close>

theorem selector_row_order:
  assumes "query_ordering offs cs d x rows"
  shows "(first rows = None \<longleftrightarrow> candidates offs d x = [])
    \<and> (\<forall>y. first rows = Some y \<longrightarrow>
          y \<in> set (candidates offs d x)
          \<and> (\<forall>z \<in> set (candidates offs d x). complaint_count cs y \<le> complaint_count cs z))
    \<and> (\<forall>y. y \<in> set (candidates offs d x)
             \<and> (\<forall>z \<in> set (candidates offs d x).
                    z \<noteq> y \<longrightarrow> complaint_count cs y < complaint_count cs z)
          \<longrightarrow> first rows = Some y)
    \<and> query_ordering offs cs d x (rankCandidates offs cs d x)
    \<and> (\<forall>c cur. current_officer c = Some cur \<and> department c = d \<and> officer_id cur = x
          \<longrightarrow> find_senior_officer offs cs c = Inr (first (rankCandidates offs cs d x)))"
proof -
  have a: "first rows = None \<longleftrightarrow> candidates offs d x = []"
    using query_ordering_first(1) [OF assms] .
  have b: "\<forall>y. first rows = Some y \<longrightarrow>
          y \<in> set (candidates offs d x)
          \<and> (\<forall>z \<in> set (candidates offs d x). complaint_count cs y \<le> complaint_count cs z)"
    using query_ordering_first(2,3) [OF assms] by blast
  have c: "first rows = Some y"
    if y: "y \<in> set (candidates offs d x)"
      and less: "\<forall>z \<in> set (candidates offs d x).
                    z \<noteq> y \<longrightarrow> complaint_count cs y < complaint_count cs z" for y
  proof -
    have "candidates offs d x \<noteq> []" using y by auto
    then obtain h where h: "first rows = Some h" using a by (cases "first rows") auto
    have hin: "h \<in> set (candidates offs d x)" using b h by blast
    have "complaint_count cs h \<le> complaint_count cs y" using b h y by blast
    then have "h = y" using less hin by fastforce
    then show ?thesis using h by simp
  qed
  have f: "\<forall>c cur. current_officer c = Some cur \<and> department c = d \<and> officer_id cur = x
          \<longrightarrow> find_senior_officer offs cs c = Inr (first (rankCandidates offs cs d x))"
    by (auto simp: find_senior_officer_def)
  show ?thesis using a b c f query_ordering_rankCandidates by blast
qed

theorem selector_row_order_witness:
  "query_ordering officer_table complaint_table (department complaintA) (officer_id officerB)
     [officerD, officerC]
   \<and> first [officerD, officerC] = Some officerD
   \<and> officerD \<in> set (candidates officer_table (department complaintA) (officer_id officerB))
   \<and> complaint_count complaint_table officerD < complaint_count complaint_table officerC
   \<and> \<not> query_ordering officer_table complaint_table (department complaintA)
         (officer_id officerB) [officerC, officerD]"
proof -
  have q: "query_ordering officer_table complaint_table (department complaintA)
      (officer_id officerB) [officerD, officerC]"
    by (simp add: query_ordering_def candidates_def complaint_count_def
        officer_table_def complaint_table_def handled_by_def complaintA_def
        officerB_def officerC_def officerD_def)
  have n: "\<not> query_ordering officer_table complaint_table (department complaintA)
         (officer_id officerB) [officerC, officerD]"
    by (simp add: query_ordering_def candidates_def complaint_count_def
        officer_table_def complaint_table_def handled_by_def complaintA_def
        officerB_def officerC_def officerD_def)
  have l: "complaint_count complaint_table officerD < complaint_count complaint_table officerC"
    by code_simp
  show ?thesis
    using selector_row_order [OF q] q n l by (simp add: first_def)
qed

subsection \<open>The reason of an escalation\<close>

lemma escalation_reason_worker:
  "current_worker c = Some w \<Longrightarrow> sublist (worker_full_name w) (escalation_reason r0 c)"
proof -
  assume w: "current_worker c = Some w"
  have "\<exists>ps ss. escalation_reason r0 c = ps @ worker_full_name w @ ss"
  proof (cases "current_officer c")
    case None
    then have "escalation_reason r0 c
        = (r0 @ ''Previously assigned to worker: '') @ worker_full_name w @ ''. ''"
      using w by (simp add: escalation_reason_def)
    then show ?thesis by blast
  next
    case (Some off)
    then have "escalation_reason r0 c
        = (r0 @ ''Previously assigned to worker: '') @ worker_full_name w
          @ (''. '' @ ''Supervised by: '' @ officer_full_name off @ ''.'')"
      using w by (simp add: escalation_reason_def)
    then show ?thesis by blast
  qed
  then show ?thesis by (simp add: sublist_def)
qed

lemma escalation_reason_officer:
  "current_officer c = Some off \<Longrightarrow> sublist (officer_full_name off) (escalation_reason r0 c)"
proof -
  assume off: "current_officer c = Some off"
  have "\<exists>ps. escalation_reason r0 c = ps @ officer_full_name off @ ''.''"
    using off by (cases "current_worker c") (simp_all add: escalation_reason_def)
  then show ?thesis unfolding sublist_def by blast
qed

lemma escalation_reason_unassigned:
  "current_worker c = None \<Longrightarrow> current_officer c = None \<Longrightarrow> escalation_reason r0 c = r0"
  by (simp add: escalation_reason_def)

lemma escalation_reason_display:
  "current_worker c \<noteq> None \<or> current_officer c \<noteq> None
   \<Longrightarrow> escalation_reason r0 c = r0 @ displayText (resolve c)"
  by (auto simp: escalation_reason_def resolve_def split: option.splits)

lemma timer_check_reason_worker:
  assumes "current_worker c = Some w"
  shows "\<exists>r. timer_check_reason c = Inr r \<and> sublist (worker_full_name w) r"
proof -
  let ?r = "''Auto-escalation: SLA breach. Previously assigned to worker: '' @ worker_full_name w"
  have "timer_check_reason c = Inr ?r"
    using assms by (simp add: timer_check_reason_def)
  moreover have "sublist (worker_full_name w) ?r" by (rule sublist_append_leftI)
  ultimately show ?thesis by blast
qed

lemma escalation_execution_worker:
  assumes "current_worker c = Some w"
  shows "\<exists>e. escalation_execution now c senior = Inr e
           \<and> sublist (worker_full_name w) (reason e)"
proof -
  let ?r = "''SLA breach. Previously assigned to '' @ worker_full_name w"
  let ?e = "\<lparr>escalated_complaint = complaint_id c, escalated_from = current_officer c,
             escalated_to = senior, reason = ?r, escalated_at = now\<rparr>"
  have "escalation_execution now c senior = Inr ?e"
    using assms by (simp add: escalation_execution_def responsible_def)
  moreover have "sublist (worker_full_name w) ?r" by (rule sublist_append_leftI)
  then have "sublist (worker_full_name w) (reason ?e)" by simp
  ultimately show ?thesis by blast
qed

text \<open>
  For a complaint with neither worker nor officer none of the three quoted versions of the
  reason code yields an "Unassigned" placeholder: the guarded lines add nothing to the
  reason, and the other two raise on the missing party.
\<close>

theorem unassigned_placeholder_counterexample:
  "current_worker unassigned_complaint = None \<and> current_officer unassigned_complaint = None
   \<and> \<not> sublist ''Unassigned''
         (escalation_reason ''Auto-escalation: SLA breach. '' unassigned_complaint)
   \<and> timer_check_reason unassigned_complaint = Inl AttributeError
   \<and> escalation_execution (timedelta_hours 13) unassigned_complaint officerC = Inl AttributeError"
  by code_simp

text \<open>
  C8 (as the code has it). Whenever a worker was assigned, the reason contains the
  worker's full name, in each of the three quoted versions of the code that builds it.
  For a complaint with neither worker nor officer no placeholder is produced: the guarded
  lines leave the reason as it was.
\<close>

theorem reason_names_worker:
  "(\<forall>w. current_worker c = Some w \<longrightarrow>
       sublist (worker_full_name w) (escalation_reason r0 c)
       \<and> (\<exists>r. timer_check_reason c = Inr r \<and> sublist (worker_full_name w) r)
       \<and> (\<exists>e. escalation_execution now c senior = Inr e
              \<and> sublist (worker_full_name w) (reason e)))
   \<and> (current_worker c = None \<and> current_officer c = None \<longrightarrow> escalation_reason r0 c = r0)"
  using escalation_reason_worker [of c _ r0] timer_check_reason_worker [of c]
    escalation_execution_worker [of c _ now senior] escalation_reason_unassigned [of c r0]
  by blast

theorem reason_names_worker_witness:
  "current_worker complaintA = Some workerA
   \<and> escalation_reason ''Auto-escalation: SLA breach. '' complaintA
       = ''Auto-escalation: SLA breach. Previously assigned to worker: John Worker. Supervised by: Officer Sharma.''
   \<and> timer_check_reason complaintA
       = Inr ''Auto-escalation: SLA breach. Previously assigned to worker: John Worker''
   \<and> map_sum id reason (escalation_execution (timedelta_hours 13) complaintA officerC)
       = Inr ''SLA breach. Previously assigned to John Worker''
   \<and> sublist ''John Worker'' (escalation_reason ''Auto-escalation: SLA breach. '' complaintA)
   \<and> current_worker unassigned_complaint = None \<and> current_officer unassigned_complaint = None
   \<and> escalation_reason ''Auto-escalation: SLA breach. '' unassigned_complaint
       = ''Auto-escalation: SLA breach. ''"
proof -
  have w: "current_worker complaintA = Some workerA" "worker_full_name workerA = ''John Worker''"
    "current_worker unassigned_complaint = None" "current_officer unassigned_complaint = None"
    by (simp_all add: complaintA_def workerA_def unassigned_complaint_def)
  have r: "escalation_reason ''Auto-escalation: SLA breach. '' complaintA
       = ''Auto-escalation: SLA breach. Previously assigned to worker: John Worker. Supervised by: Officer Sharma.''"
    by (simp add: escalation_reason_def complaintA_def workerA_def officerB_def)
  have t: "timer_check_reason complaintA
       = Inr ''Auto-escalation: SLA breach. Previously assigned to worker: John Worker''"
    by (simp add: timer_check_reason_def complaintA_def workerA_def)
  have x: "map_sum id reason (escalation_execution (timedelta_hours 13) complaintA officerC)
       = Inr ''SLA breach. Previously assigned to John Worker''"
    by (simp add: escalation_execution_def responsible_def complaintA_def workerA_def)
  show ?thesis
    using reason_names_worker
        [of complaintA "''Auto-escalation: SLA breach. ''" "timedelta_hours 13" officerC]
      reason_names_worker
        [of unassigned_complaint "''Auto-escalation: SLA breach. ''" "timedelta_hours 13" officerC]
      w r t x
    by simp
qed

subsection \<open>The Recorder\<close>

lemma priority_level_raise:
  "priority_level (raise_priority q) = min 3 (priority_level q + 1)"
  by (cases q) simp_all

text \<open>
  C6. For a complaint that is OVERDUE, not yet escalated in the current window, and for
  which the Selector found a target, the Driver's pass makes the Recorder's one update:
  exactly one Escalation record, from the previous officer to the target, whose reason
  contains the display text of the responsible party (the names of the previous worker
  and officer); the status becomes reassignment-pending, the officer the target, the
  priority one level higher and never above CRITICAL (a CRITICAL complaint stays
  CRITICAL), and the escalation count one more.
\<close>

theorem recorder_update:
  assumes "\<not> is_terminal (status c)" and "registry (category c) = Some p"
    and "state (evaluate c now p (warning_threshold cfg)) = OVERDUE"
    and "\<not> escalated_in_window c now p"
    and "find_senior_officer offs cs c = Inr (Some target)"
  shows "\<exists>c' e. recorder now p (initial_reason cfg) c target = (c', Some e)
    \<and> updated (process cfg now registry offs cs c) = c'
    \<and> recorded (process cfg now registry offs cs c) = [e]
    \<and> status c' = PENDING_REASSIGNMENT
    \<and> current_officer c' = Some target
    \<and> priority c' = raise_priority (priority c)
    \<and> priority_level (priority c') = min 3 (priority_level (priority c) + 1)
    \<and> (priority c = CRITICAL \<longrightarrow> priority c' = CRITICAL)
    \<and> escalation_count c' = escalation_count c + 1
    \<and> last_escalated_at c' = Some now
    \<and> escalated_complaint e = complaint_id c
    \<and> escalated_from e = current_officer c
    \<and> escalated_to e = target
    \<and> sublist (displayText (resolve c)) (reason e)
    \<and> (\<forall>w. current_worker c = Some w \<longrightarrow> sublist (worker_full_name w) (reason e))
    \<and> (\<forall>off. current_officer c = Some off \<longrightarrow> sublist (officer_full_name off) (reason e))"
proof -
  let ?c' = "c\<lparr>status := PENDING_REASSIGNMENT, current_officer := Some target,
               priority := raise_priority (priority c),
               escalation_count := Suc (escalation_count c),
               last_escalated_at := Some now, updated_at := now\<rparr>"
  let ?e = "\<lparr>escalated_complaint = complaint_id c, escalated_from = current_officer c,
             escalated_to = target, reason = escalation_reason (initial_reason cfg) c,
             escalated_at = now\<rparr>"
  have r: "recorder now p (initial_reason cfg) c target = (?c', Some ?e)"
    using assms(4) by (simp add: recorder_def)
  have pr: "process cfg now registry offs cs c =
      \<lparr>updated = ?c', recorded = [?e], sent = escalation_notifications c target, logged = []\<rparr>"
    using assms r by (simp add: process_def lookup_def Let_def)
  have o: "current_officer c \<noteq> None"
    using assms(5) by (auto simp: find_senior_officer_def split: option.splits)
  have d: "sublist (displayText (resolve c)) (reason ?e)"
    using o by (simp add: escalation_reason_display)
  have w: "\<forall>w. current_worker c = Some w \<longrightarrow> sublist (worker_full_name w) (reason ?e)"
    by (simp add: escalation_reason_worker)
  have off: "\<forall>off. current_officer c = Some off \<longrightarrow> sublist (officer_full_name off) (reason ?e)"
    by (simp add: escalation_reason_officer)
  have lv: "priority_level (priority ?c') = min 3 (priority_level (priority c) + 1)"
    by (simp add: priority_level_raise)
  show ?thesis
    apply (rule exI [where x = ?c'])
    apply (rule exI [where x = ?e])
    using r pr d w off lv by simp
qed

theorem recorder_update_witness:
  "\<not> is_terminal (status complaintA) \<and> sla_table (category complaintA) = Some pothole_sla
   \<and> state (evaluate complaintA (timedelta_hours 13) pothole_sla (warning_threshold default_config))
       = OVERDUE
   \<and> \<not> escalated_in_window complaintA (timedelta_hours 13) pothole_sla
   \<and> find_senior_officer officer_table complaint_table complaintA = Inr (Some officerD)
   \<and> (\<exists>c' e. updated (process default_config (timedelta_hours 13) sla_table officer_table
                    complaint_table complaintA) = c'
         \<and> recorded (process default_config (timedelta_hours 13) sla_table officer_table
                    complaint_table complaintA) = [e]
         \<and> status c' = PENDING_REASSIGNMENT \<and> current_officer c' = Some officerD
         \<and> priority c' = HIGH \<and> escalation_count c' = 1
         \<and> sublist ''John Worker'' (reason e))"
proof -
  have h: "\<not> is_terminal (status complaintA)" "sla_table (category complaintA) = Some pothole_sla"
    "state (evaluate complaintA (timedelta_hours 13) pothole_sla (warning_threshold default_config))
       = OVERDUE"
    "\<not> escalated_in_window complaintA (timedelta_hours 13) pothole_sla"
    "find_senior_officer officer_table complaint_table complaintA = Inr (Some officerD)"
    by code_simp+
  have v: "priority complaintA = NORMAL" "escalation_count complaintA = 0"
    "current_worker complaintA = Some workerA" "worker_full_name workerA = ''John Worker''"
    by (simp_all add: complaintA_def workerA_def)
  show ?thesis
    using recorder_update
        [where registry = sla_table and c = complaintA and cfg = default_config, OF h] h v
    by auto
qed

subsection \<open>No eligible target\<close>

lemma process_no_target:
  assumes "\<not> is_terminal (status c)" and "registry (category c) = Some p"
    and "state (evaluate c now p (warning_threshold cfg)) = OVERDUE"
    and "\<not> escalated_in_window c now p"
    and "current_officer c = Some cur"
    and "candidates offs (department c) (officer_id cur) = []"
  shows "find_senior_officer offs cs c = Inr None
    \<and> process cfg now registry offs cs c =
        \<lparr>updated = c\<lparr>priority := CRITICAL, updated_at := now\<rparr>, recorded = [], sent = [],
         logged = [NoTargetAvailable (complaint_id c)]\<rparr>"
proof -
  have f: "find_senior_officer offs cs c = Inr None"
    using assms(5,6) by (simp add: find_senior_officer_def first_None_iff rankCandidates_Nil_iff)
  show ?thesis
    using assms(1-4) f by (simp add: process_def lookup_def Let_def)
qed

text \<open>
  C9. An overdue complaint with no current officer, in a department that has no officer,
  has an empty candidate set. The Selector does not report it: reading the identifier of
  the missing current officer raises before the query is built. With a current officer
  and the same officer table the Selector returns no officer, as the empty candidate set
  asks.
\<close>

theorem selector_raises_without_officer:
  "state (evaluate unassigned_complaint (timedelta_hours 13) pothole_sla 2) = OVERDUE
   \<and> current_officer unassigned_complaint = None
   \<and> filter (\<lambda>off. officer_department off = department unassigned_complaint)
        [other_department_officer] = []
   \<and> find_senior_officer [other_department_officer] [unassigned_complaint]
        unassigned_complaint = Inl AttributeError
   \<and> find_senior_officer [other_department_officer] [complaintA] complaintA = Inr None"
  by code_simp

subsection \<open>Two passes at the same time\<close>

lemma process_recorded:
  "recorded (process cfg now registry offs cs c) \<noteq> [] \<longleftrightarrow> eligible now registry offs c"
  by (auto simp: process_def eligible_def lookup_def unchanged_def Let_def recorder_def
      find_senior_officer_def first_None_iff rankCandidates_Nil_iff state_overdue_iff
      state_warning_iff dest: first_Some_not_Nil
      split: option.splits sum.splits if_splits prod.splits)

lemmas process_unfold =
  process_def lookup_def unchanged_def Let_def recorder_def find_senior_officer_def

lemma process_escalation_count:
  "escalation_count (updated (process cfg now registry offs cs c)) =
     (if eligible now registry offs c then Suc (escalation_count c) else escalation_count c)"
  by (auto simp: process_unfold eligible_def first_None_iff rankCandidates_Nil_iff
      state_overdue_iff state_warning_iff dest: first_Some_not_Nil
      split: option.splits sum.splits if_splits prod.splits)

lemma escalated_in_window_now:
  "last_escalated_at c = Some now \<Longrightarrow> escalated_in_window c now p"
  by (simp add: escalated_in_window_def timedelta_hours_def)

lemma process_settles:
  "\<not> eligible now registry offs (updated (process cfg now registry offs cs c))"
  by (auto simp: process_unfold eligible_def first_None_iff rankCandidates_Nil_iff
      state_overdue_iff state_warning_iff deadline_reached_def escalation_deadline_of_def
      escalated_in_window_def timedelta_hours_def
      dest: first_Some_not_Nil
      split: option.splits sum.splits if_splits prod.splits)

lemma trace_settles:
  "r \<in> set (driver_trace cfg now registry offs seen todo)
   \<Longrightarrow> \<not> eligible now registry offs (updated r)"
proof (induction todo arbitrary: seen)
  case Nil
  then show ?case by simp
next
  case (Cons c todo)
  then show ?case by (auto simp: Let_def process_settles)
qed

lemma trace_of_settled:
  "(\<And>c. c \<in> set todo \<Longrightarrow> \<not> eligible now registry offs c)
   \<Longrightarrow> concat (map recorded (driver_trace cfg now registry offs seen todo)) = []
     \<and> map (\<lambda>r. escalation_count (updated r)) (driver_trace cfg now registry offs seen todo)
         = map escalation_count todo"
proof (induction todo arbitrary: seen)
  case Nil
  then show ?case by simp
next
  case (Cons c todo)
  have c: "\<not> eligible now registry offs c" using Cons.prems by simp
  have "recorded (process cfg now registry offs (seen @ c # todo) c) = []"
    using c process_recorded by blast
  moreover have "escalation_count (updated (process cfg now registry offs (seen @ c # todo) c))
      = escalation_count c"
    using c by (simp add: process_escalation_count)
  ultimately show ?case using Cons.IH Cons.prems by (simp add: Let_def)
qed

text \<open>
  C2. Running one full pass of the Driver and then a second pass at the same clock time
  records no Escalation in the second pass, for any store, and the second pass leaves the
  escalation count of every complaint unchanged: a complaint escalated by the first pass
  carries the time of that pass as its last-escalated timestamp, which lies in the
  current escalation window, and every other complaint is as ineligible as it was. The
  Recorder itself changes nothing for a complaint already escalated inside the window.
\<close>

theorem driver_pass_idempotent:
  "escalations (driver_pass cfg now (driver_pass cfg now s)) = escalations (driver_pass cfg now s)
   \<and> map escalation_count (complaints (driver_pass cfg now (driver_pass cfg now s)))
       = map escalation_count (complaints (driver_pass cfg now s))
   \<and> (\<forall>c p r0 target. escalated_in_window c now p
          \<longrightarrow> recorder now p r0 c target = (c, None))"
proof -
  let ?s1 = "driver_pass cfg now s"
  have st: "sla_configs ?s1 = sla_configs s" "officers ?s1 = officers s"
    by (simp_all add: driver_pass_def Let_def)
  have cs: "complaints ?s1 = map updated (pass_trace cfg now s)"
    by (simp add: driver_pass_def Let_def)
  have settled: "\<And>c. c \<in> set (complaints ?s1) \<Longrightarrow> \<not> eligible now (sla_configs s) (officers s) c"
    unfolding cs pass_trace_def using trace_settles by auto
  have t: "concat (map recorded (pass_trace cfg now ?s1)) = []
     \<and> map (\<lambda>r. escalation_count (updated r)) (pass_trace cfg now ?s1)
         = map escalation_count (complaints ?s1)"
    unfolding pass_trace_def st by (rule trace_of_settled) (rule settled)
  show ?thesis
    using t by (simp add: driver_pass_def [of cfg now ?s1] Let_def comp_def recorder_def)
qed

theorem driver_pass_idempotent_witness:
  "length (escalations (driver_pass default_config (timedelta_hours 13) store1)) = 1
   \<and> length (escalations (driver_pass default_config (timedelta_hours 13)
        (driver_pass default_config (timedelta_hours 13) store1))) = 1
   \<and> map escalation_count (complaints (driver_pass default_config (timedelta_hours 13)
        (driver_pass default_config (timedelta_hours 13) store1))) = [1, 0]
   \<and> escalated_in_window escalated_complaint_example (timedelta_hours 13) pothole_sla
   \<and> recorder (timedelta_hours 13) pothole_sla [] escalated_complaint_example officerC
       = (escalated_complaint_example, None)"
proof -
  have w: "escalated_in_window escalated_complaint_example (timedelta_hours 13) pothole_sla"
    by code_simp
  have a: "length (escalations (driver_pass default_config (timedelta_hours 13) store1)) = 1"
    by code_simp
  have b: "map escalation_count (complaints (driver_pass default_config (timedelta_hours 13) store1))
      = [1, 0]"
    by code_simp
  show ?thesis
    using driver_pass_idempotent [of default_config "timedelta_hours 13" store1] a b w by simp
qed

subsection \<open>Warnings\<close>

lemma in_warning_bandD:
  assumes "in_warning_band cfg registry now c" "registry (category c) = Some p"
  shows "\<not> is_terminal (status c)" "\<not> deadline_reached now c p"
    "of_nat (escalation_hours p) - hours_since_creation now c \<le> of_int (warning_threshold cfg)"
proof -
  show t: "\<not> is_terminal (status c)" using assms by (simp add: in_warning_band_def)
  have st: "state (evaluate c now p (warning_threshold cfg)) = WARNING
      \<or> state (evaluate c now p (warning_threshold cfg)) = CRITICAL_STATE"
    using assms by (simp add: in_warning_band_def)
  show "\<not> deadline_reached now c p"
    using st t by (auto simp: evaluate_def split: if_splits)
  show "of_nat (escalation_hours p) - hours_since_creation now c \<le> of_int (warning_threshold cfg)"
    using st t by (auto simp: evaluate_def split: if_splits)
qed

lemma process_in_band:
  assumes "in_warning_band cfg registry now c" "registry (category c) = Some p"
  shows "process cfg now registry offs cs c =
     (if warned_since_entry c p (warning_threshold cfg) then unchanged c
      else \<lparr>updated = c\<lparr>last_warned_at := Some now, updated_at := now\<rparr>,
            recorded = [],
            sent = warning_notifications
                     (notification_urgency (critical_threshold cfg) p
                        (evaluate c now p (warning_threshold cfg))) c,
            logged = []\<rparr>)"
  using in_warning_bandD [OF assms] assms(2)
  by (simp add: process_def lookup_def Let_def evaluate_def)

lemma process_keeps_identity:
  "category (updated (process cfg now registry offs cs c)) = category c
   \<and> created_at (updated (process cfg now registry offs cs c)) = created_at c"
  by (simp add: process_unfold split: option.splits sum.splits prod.splits)

lemma process_last_warned:
  "last_warned_at (updated (process cfg now registry offs cs c)) = last_warned_at c
   \<or> (\<exists>p. registry (category c) = Some p \<and> \<not> warned_since_entry c p (warning_threshold cfg))"
  by (simp add: process_unfold split: option.splits sum.splits prod.splits)

lemma process_keeps_warned:
  "registry (category c) = Some p \<Longrightarrow> warned_since_entry c p (warning_threshold cfg)
   \<Longrightarrow> last_warned_at (updated (process cfg now registry offs cs c)) = last_warned_at c"
  using process_last_warned [of cfg now registry offs cs c] by auto

lemma warned_since_entry_cong:
  "created_at c' = created_at c \<Longrightarrow> last_warned_at c' = last_warned_at c
   \<Longrightarrow> warned_since_entry c' p w = warned_since_entry c p w"
  by (simp add: warned_since_entry_def hours_since_creation_def split: option.splits)

lemma process_warns_in_band:
  assumes "in_warning_band cfg registry now c" "registry (category c) = Some p"
  shows "warned_since_entry (updated (process cfg now registry offs cs c)) p (warning_threshold cfg)"
proof (cases "warned_since_entry c p (warning_threshold cfg)")
  case True
  then show ?thesis by (simp add: process_in_band [OF assms] unchanged_def)
next
  case False
  then show ?thesis
    using in_warning_bandD(3) [OF assms]
    by (simp add: process_in_band [OF assms] warned_since_entry_def hours_since_creation_def)
qed

lemma process_warned_silent:
  "in_warning_band cfg registry now c \<Longrightarrow> registry (category c) = Some p
   \<Longrightarrow> warned_since_entry c p (warning_threshold cfg)
   \<Longrightarrow> process cfg now registry offs cs c = unchanged c"
  by (simp add: process_in_band)

lemma length_driver_trace [simp]:
  "length (driver_trace cfg now registry offs seen todo) = length todo"
  by (induction todo arbitrary: seen) (simp_all add: Let_def)

lemma driver_trace_nth:
  "i < length todo \<Longrightarrow>
   \<exists>cs. driver_trace cfg now registry offs seen todo ! i
          = process cfg now registry offs cs (todo ! i)"
proof (induction todo arbitrary: seen i)
  case Nil
  then show ?case by simp
next
  case (Cons c todo)
  show ?case
  proof (cases i)
    case 0
    then show ?thesis by (auto simp: Let_def)
  next
    case (Suc j)
    then have "j < length todo" using Cons.prems by simp
    from Cons.IH [OF this] show ?thesis using Suc by (simp add: Let_def)
  qed
qed

lemma driver_pass_static [simp]:
  "sla_configs (driver_pass cfg now s) = sla_configs s"
  "officers (driver_pass cfg now s) = officers s"
  "length (complaints (driver_pass cfg now s)) = length (complaints s)"
  by (simp_all add: driver_pass_def pass_trace_def Let_def)

lemma driver_pass_nth:
  assumes "i < length (complaints s)"
  shows "\<exists>cs. pass_trace cfg now s ! i
               = process cfg now (sla_configs s) (officers s) cs (complaints s ! i)
          \<and> complaints (driver_pass cfg now s) ! i = updated (pass_trace cfg now s ! i)"
proof -
  obtain cs where "driver_trace cfg now (sla_configs s) (officers s) [] (complaints s) ! i
        = process cfg now (sla_configs s) (officers s) cs (complaints s ! i)"
    using driver_trace_nth [OF assms] by blast
  then show ?thesis using assms
    by (auto simp: driver_pass_def pass_trace_def Let_def)
qed

lemma driver_pass_keeps_identity:
  assumes "i < length (complaints s)"
  shows "category (complaints (driver_pass cfg now s) ! i) = category (complaints s ! i)"
    "created_at (complaints (driver_pass cfg now s) ! i) = created_at (complaints s ! i)"
proof -
  obtain cs where tr: "pass_trace cfg now s ! i
               = process cfg now (sla_configs s) (officers s) cs (complaints s ! i)"
     and up: "complaints (driver_pass cfg now s) ! i = updated (pass_trace cfg now s ! i)"
    using driver_pass_nth [OF assms] by blast
  show "category (complaints (driver_pass cfg now s) ! i) = category (complaints s ! i)"
    unfolding up tr by (simp add: process_keeps_identity)
  show "created_at (complaints (driver_pass cfg now s) ! i) = created_at (complaints s ! i)"
    unfolding up tr by (simp add: process_keeps_identity)
qed

lemma driver_pass_keeps_warned:
  assumes "i < length (complaints s)" "warned_at_index cfg i s"
  shows "warned_at_index cfg i (driver_pass cfg now s)"
proof -
  obtain p where p: "sla_configs s (category (complaints s ! i)) = Some p"
    and w: "warned_since_entry (complaints s ! i) p (warning_threshold cfg)"
    using assms(2) by (auto simp: warned_at_index_def split: option.splits)
  obtain cs where tr: "pass_trace cfg now s ! i
               = process cfg now (sla_configs s) (officers s) cs (complaints s ! i)"
     and up: "complaints (driver_pass cfg now s) ! i = updated (pass_trace cfg now s ! i)"
    using driver_pass_nth [OF assms(1)] by blast
  have "last_warned_at (complaints (driver_pass cfg now s) ! i) = last_warned_at (complaints s ! i)"
    unfolding up tr using p w by (rule process_keeps_warned)
  moreover have "created_at (complaints (driver_pass cfg now s) ! i) = created_at (complaints s ! i)"
    "category (complaints (driver_pass cfg now s) ! i) = category (complaints s ! i)"
    using driver_pass_keeps_identity [OF assms(1)] by simp_all
  ultimately have "warned_since_entry (complaints (driver_pass cfg now s) ! i) p (warning_threshold cfg)
      = warned_since_entry (complaints s ! i) p (warning_threshold cfg)"
    "sla_configs (driver_pass cfg now s) (category (complaints (driver_pass cfg now s) ! i)) = Some p"
    using p by (simp_all add: warned_since_entry_def hours_since_creation_def split: option.splits)
  then show ?thesis
    using w by (simp add: warned_at_index_def)
qed

lemma driver_pass_warns_in_band:
  assumes "i < length (complaints s)"
    "in_warning_band cfg (sla_configs s) now (complaints s ! i)"
  shows "warned_at_index cfg i (driver_pass cfg now s)"
proof -
  obtain p where p: "sla_configs s (category (complaints s ! i)) = Some p"
    using assms(2) by (auto simp: in_warning_band_def split: option.splits)
  obtain cs where tr: "pass_trace cfg now s ! i
               = process cfg now (sla_configs s) (officers s) cs (complaints s ! i)"
     and up: "complaints (driver_pass cfg now s) ! i = updated (pass_trace cfg now s ! i)"
    using driver_pass_nth [OF assms(1)] by blast
  have "warned_since_entry (complaints (driver_pass cfg now s) ! i) p (warning_threshold cfg)"
    unfolding up tr using assms(2) p by (rule process_warns_in_band)
  then show ?thesis
    using p driver_pass_keeps_identity [OF assms(1), of cfg now]
    by (simp add: warned_at_index_def)
qed

lemma fold_driver_pass_keeps:
  "i < length (complaints s) \<Longrightarrow> warned_at_index cfg i s
   \<Longrightarrow> warned_at_index cfg i (fold (driver_pass cfg) ts s)
       \<and> length (complaints (fold (driver_pass cfg) ts s)) = length (complaints s)
       \<and> sla_configs (fold (driver_pass cfg) ts s) = sla_configs s"
proof (induction ts arbitrary: s)
  case Nil
  then show ?case by simp
next
  case (Cons t ts)
  have "i < length (complaints (driver_pass cfg t s))" using Cons.prems by simp
  moreover have "warned_at_index cfg i (driver_pass cfg t s)"
    using Cons.prems by (rule driver_pass_keeps_warned)
  ultimately show ?case using Cons.IH [of "driver_pass cfg t s"] by simp
qed

text \<open>
  C7. A complaint that is in the warning band at a pass of the Driver has a warning
  recorded by that pass at the latest. At any later pass, after any number of passes in
  between, at which the complaint is still in the warning band, the Driver sends no
  notification for it and leaves it as it is: at most one warning per entry into the
  band.
\<close>

theorem warning_sent_once:
  assumes "i < length (complaints s)"
    and "in_warning_band cfg (sla_configs s) t1 (complaints s ! i)"
    and "s' = fold (driver_pass cfg) ts (driver_pass cfg t1 s)"
    and "in_warning_band cfg (sla_configs s) t2 (complaints s' ! i)"
  shows "sent (pass_trace cfg t2 s' ! i) = []
    \<and> complaints (driver_pass cfg t2 s') ! i = complaints s' ! i"
proof -
  let ?s1 = "driver_pass cfg t1 s"
  have i1: "i < length (complaints ?s1)" using assms(1) by simp
  have w1: "warned_at_index cfg i ?s1"
    using assms(1,2) by (rule driver_pass_warns_in_band)
  have k: "warned_at_index cfg i s'" "length (complaints s') = length (complaints s)"
    "sla_configs s' = sla_configs s"
    using fold_driver_pass_keeps [OF i1 w1, of ts] assms(3) by simp_all
  obtain p where p: "sla_configs s' (category (complaints s' ! i)) = Some p"
    and w: "warned_since_entry (complaints s' ! i) p (warning_threshold cfg)"
    using k(1) by (auto simp: warned_at_index_def split: option.splits)
  have i': "i < length (complaints s')" using k(2) assms(1) by simp
  obtain cs where tr: "pass_trace cfg t2 s' ! i
               = process cfg t2 (sla_configs s') (officers s') cs (complaints s' ! i)"
     and up: "complaints (driver_pass cfg t2 s') ! i = updated (pass_trace cfg t2 s' ! i)"
    using driver_pass_nth [OF i'] by blast
  have "process cfg t2 (sla_configs s') (officers s') cs (complaints s' ! i)
          = unchanged (complaints s' ! i)"
    using assms(4) p w unfolding k(3) [symmetric] by (rule process_warned_silent)
  then show ?thesis unfolding up tr by (simp add: unchanged_def)
qed

theorem warning_sent_once_witness:
  "0 < length (complaints store1)
   \<and> in_warning_band default_config (sla_configs store1) (timedelta_hours 10)
        (complaints store1 ! 0)
   \<and> in_warning_band default_config (sla_configs store1) (timedelta_hours 11)
        (complaints (fold (driver_pass default_config) [timedelta_hours 10 + 1]
           (driver_pass default_config (timedelta_hours 10) store1)) ! 0)
   \<and> length (outbox (driver_pass default_config (timedelta_hours 10) store1)) = 2
   \<and> sent (pass_trace default_config (timedelta_hours 11)
        (fold (driver_pass default_config) [timedelta_hours 10 + 1]
           (driver_pass default_config (timedelta_hours 10) store1)) ! 0) = []"
proof -
  have h1: "0 < length (complaints store1)" by code_simp
  have h2: "in_warning_band default_config (sla_configs store1) (timedelta_hours 10)
        (complaints store1 ! 0)" by code_simp
  have h3: "in_warning_band default_config (sla_configs store1) (timedelta_hours 11)
        (complaints (fold (driver_pass default_config) [timedelta_hours 10 + 1]
           (driver_pass default_config (timedelta_hours 10) store1)) ! 0)" by code_simp
  have o: "length (outbox (driver_pass default_config (timedelta_hours 10) store1)) = 2"
    by code_simp
  show ?thesis
    using warning_sent_once [OF h1 h2 refl h3] h1 h2 h3 o by simp
qed

end
